theory Spec2Isabelle
  imports Complex_Main
begin

section \<open>JavaScript values\<close>

text \<open>
  The component reads values that \<^verbatim>\<open>JSON.parse\<close> and \<^verbatim>\<open>response.json()\<close> return, typed
  \<^verbatim>\<open>any\<close> in the source. A number is the double the parser produced: a rational, or an
  infinity when the literal overflows. An object is the list of its members in the order of
  the text; a later member with the same key overrides an earlier one.
\<close>

datatype js_number = Finite rat | PosInfinity | NegInfinity

datatype jsval =
    JUndefined
  | JNull
  | JBool bool
  | JNumber js_number
  | JString string
  | JArray "jsval list"
  | JObject "(string \<times> jsval) list"

text \<open>A thrown \<^verbatim>\<open>Error\<close>, with the \<^verbatim>\<open>message\<close> the handlers read.\<close>

datatype exn = Error (message: string)

text \<open>\<^verbatim>\<open>ToBoolean\<close>, as \<^verbatim>\<open>!x\<close> and \<^verbatim>\<open>x || y\<close> apply it.\<close>

fun truthy :: "jsval \<Rightarrow> bool" where
  "truthy JUndefined = False"
| "truthy JNull = False"
| "truthy (JBool b) = b"
| "truthy (JNumber (Finite q)) = (q \<noteq> 0)"
| "truthy (JNumber PosInfinity) = True"
| "truthy (JNumber NegInfinity) = True"
| "truthy (JString str) = (str \<noteq> [])"
| "truthy (JArray xs) = True"
| "truthy (JObject ps) = True"

text \<open>Reading a property of \<^verbatim>\<open>null\<close> or \<^verbatim>\<open>undefined\<close> throws a \<^verbatim>\<open>TypeError\<close>.\<close>

fun nullish :: "jsval \<Rightarrow> bool" where
  "nullish JUndefined = True"
| "nullish JNull = True"
| "nullish v = False"

text \<open>
  \<^verbatim>\<open>data.k\<close> on a value that is not nullish, for the keys the source reads
  (\<^verbatim>\<open>type\<close>, \<^verbatim>\<open>isPartial\<close>, \<^verbatim>\<open>transcript\<close>, \<^verbatim>\<open>meetingResponse\<close>, \<^verbatim>\<open>attendeeResponse\<close>):
  none of them is inherited from a prototype, so a primitive or an array has none of them
  and an object has it when it is one of its members.
\<close>

fun get_prop :: "jsval \<Rightarrow> string \<Rightarrow> jsval" where
  "get_prop (JObject ps) k = (case map_of (rev ps) k of None \<Rightarrow> JUndefined | Some v \<Rightarrow> v)"
| "get_prop v k = JUndefined"

section \<open>Component state\<close>

datatype log_level = LOG | WARN | ERROR

type_synonym log_entry = "log_level \<times> string"

text \<open>
  The session object \<^verbatim>\<open>new DefaultMeetingSession(configuration, logger, deviceController)\<close>,
  built from the two descriptors of the provisioning payload.
\<close>

record meeting_session =
  meetingResponse :: jsval
  attendeeResponse :: jsval

text \<open>
  The React state of \<^verbatim>\<open>ChimeDemo\<close> (src/ChimeDemo.tsx), and the console. A console entry keeps
  the level and the first argument of the call.
\<close>

record demo_state =
  meetingSession :: "meeting_session option"
  isLoading :: bool
  error :: "string option"
  isConnected :: bool
  console :: "log_entry list"

text \<open>The browser objects \<^verbatim>\<open>ChimeWithTranscribe\<close> creates and holds in its refs.\<close>

datatype ready_state = CONNECTING | OPEN | CLOSING | CLOSED

datatype recording_state = inactive | recording | paused

type_synonym blob = string

text \<open>
  The outbound message \<^verbatim>\<open>{action, audioData, languageCode}\<close>; \<^verbatim>\<open>audioData\<close> is kept as the
  blob whose base64 text the source sends.
\<close>

record outbound =
  action :: string
  audioData :: blob
  languageCode :: string

text \<open>
  A \<^verbatim>\<open>WebSocket\<close>: its \<^verbatim>\<open>readyState\<close>, what has been handed to \<^verbatim>\<open>send\<close> while it was open,
  and the \<^verbatim>\<open>microphoneDeviceId\<close> that the closure of its handlers captured.
\<close>

record web_socket =
  readyState :: ready_state
  sent :: "outbound list"
  capturedDeviceId :: "string option"

text \<open>
  A \<^verbatim>\<open>MediaRecorder\<close>: its \<^verbatim>\<open>state\<close>, the media stream it records and the socket that the
  closure of \<^verbatim>\<open>ondataavailable\<close> captured.
\<close>

record media_recorder =
  recorderState :: recording_state
  recorderStream :: nat
  recorderSocket :: nat

text \<open>
  The state of \<^verbatim>\<open>ChimeWithTranscribe\<close>: the React state, the refs (\<open>webSocket\<close>,
  \<open>mediaRecorder\<close>, \<open>audioChunks\<close>) and the browser objects the refs and closures point to.
  Objects are numbered in the order of their creation; \<open>socketCount\<close>,
  \<open>recorderCount\<close> and \<open>streamCount\<close> say how many exist. \<open>streamLive s i\<close> holds while the
  tracks of media stream \<open>i\<close> are live, that is while the microphone stays acquired.
  \<open>pendingReads\<close> are the \<^verbatim>\<open>FileReader\<close>s that have not fired \<^verbatim>\<open>onloadend\<close> yet.
\<close>

record state = demo_state +
  transcripts :: "jsval list"
  latestTranscript :: jsval
  isTranscribing :: bool
  microphoneDeviceId :: "string option"
  webSocket :: "nat option"
  mediaRecorder :: "nat option"
  audioChunks :: "blob list"
  sockets :: "nat \<Rightarrow> web_socket"
  socketCount :: nat
  recorders :: "nat \<Rightarrow> media_recorder"
  recorderCount :: nat
  streamLive :: "nat \<Rightarrow> bool"
  streamCount :: nat
  pendingReads :: "(nat \<times> blob) list"

definition console_log :: "log_level \<Rightarrow> string \<Rightarrow> 'a demo_state_scheme \<Rightarrow> 'a demo_state_scheme" where
  "console_log lvl txt s = s\<lparr>console := console s @ [(lvl, txt)]\<rparr>"

section \<open>Transcript aggregation: \<^verbatim>\<open>ws.onmessage\<close>\<close>

text \<open>
  The body of the \<^verbatim>\<open>try\<close> block once \<^verbatim>\<open>JSON.parse\<close> has returned \<open>data\<close>. Reading
  \<^verbatim>\<open>data.type\<close> throws when \<open>data\<close> is \<^verbatim>\<open>null\<close>.
\<close>

definition process_transcript :: "jsval \<Rightarrow> 'a state_scheme \<Rightarrow> exn + 'a state_scheme" where
  "process_transcript data s =
     (if nullish data then Inl (Error ''Cannot read properties of null (reading type)'')
      else if get_prop data ''type'' = JString ''transcript'' then
        (let s1 = (if \<not> truthy (get_prop data ''isPartial'')
                   then s\<lparr>transcripts := transcripts s @ [get_prop data ''transcript'']\<rparr>
                   else s)
         in Inr (s1\<lparr>latestTranscript := get_prop data ''transcript''\<rparr>))
      else Inr s)"

text \<open>
  The handler. \<open>parsed\<close> is the outcome of \<^verbatim>\<open>JSON.parse(event.data)\<close>: \<open>Inl\<close> the
  \<^verbatim>\<open>SyntaxError\<close> it throws, \<open>Inr\<close> the value it returns.
\<close>

definition ws_onmessage :: "exn + jsval \<Rightarrow> 'a state_scheme \<Rightarrow> 'a state_scheme" where
  "ws_onmessage parsed s =
     (case parsed of
        Inl err \<Rightarrow> console_log ERROR ''Error processing transcript:'' s
      | Inr data \<Rightarrow>
          (case process_transcript data s of
             Inl err \<Rightarrow> console_log ERROR ''Error processing transcript:'' s
           | Inr s' \<Rightarrow> s'))"

section \<open>Conference setup: \<^verbatim>\<open>setupChime\<close>\<close>

text \<open>Template literals print a number in decimal.\<close>

definition digit :: "nat \<Rightarrow> char" where
  "digit d = ''0123456789'' ! d"

function show_nat :: "nat \<Rightarrow> string" where
  "show_nat n =
     (if n < 10 then [digit n]
      else show_nat (n div 10) @ [digit (n mod 10)])"
  by pat_completeness auto
termination
  by (relation "measure id") auto

declare show_nat.simps [simp del]

text \<open>The emoji that start some console messages, as their UTF-8 bytes.\<close>

definition check_mark :: string where
  "check_mark = [CHR 0xE2, CHR 0x9C, CHR 0x85]"

definition stop_sign :: string where
  "stop_sign = [CHR 0xF0, CHR 0x9F, CHR 0x9B, CHR 0x91]"

definition warning_sign :: string where
  "warning_sign = [CHR 0xE2, CHR 0x9A, CHR 0xA0, CHR 0xEF, CHR 0xB8, CHR 0x8F]"

definition cross_mark :: string where
  "cross_mark = [CHR 0xE2, CHR 0x9D, CHR 0x8C]"

definition dart :: string where
  "dart = [CHR 0xF0, CHR 0x9F, CHR 0x8E, CHR 0xAF]"

text \<open>
  The \<^verbatim>\<open>Response\<close> of \<^verbatim>\<open>fetch\<close>: its status and the outcome of \<^verbatim>\<open>response.json()\<close>
  (\<open>Inl\<close> when the body is not JSON). \<^verbatim>\<open>response.ok\<close> is true for a status from 200 to 299.
\<close>

record response =
  status :: nat
  body :: "exn + jsval"

definition ok :: "response \<Rightarrow> bool" where
  "ok r = (200 \<le> status r \<and> status r \<le> 299)"

record device =
  deviceId :: string
  label :: string

text \<open>
  What the browser and the conferencing SDK answer during one run of \<^verbatim>\<open>setupChime\<close>.
  An \<open>exn option\<close> is the outcome of a call made for its effect: \<open>Some\<close> the error it
  throws, \<open>None\<close> when it returns. \<open>constructed m a\<close> is the outcome of the four
  constructor calls (\<^verbatim>\<open>ConsoleLogger\<close>, \<^verbatim>\<open>DefaultDeviceController\<close>,
  \<^verbatim>\<open>MeetingSessionConfiguration(m, a)\<close>, \<^verbatim>\<open>DefaultMeetingSession\<close>); \<open>destructureError\<close> is
  the \<^verbatim>\<open>TypeError\<close> the engine throws when \<^verbatim>\<open>null\<close> is destructured. \<open>audioElementCurrent\<close>
  says whether \<^verbatim>\<open>audioElement.current\<close> is set. \<open>startAudioInput\<close> and \<open>chooseAudioOutput\<close>
  are the outcomes of the two device selection calls, which src/ChimeDemo.tsx names
  \<^verbatim>\<open>chooseAudioInputDevice\<close> and \<^verbatim>\<open>chooseAudioOutputDevice\<close>. The last two fields are read by
  src/ChimeDemo.tsx only. The constructors belong to the SDK, not to this repository, so
  what they do with a descriptor is left to the environment.
\<close>

record setup_env =
  fetched :: "exn + response"
  destructureError :: exn
  constructed :: "jsval \<Rightarrow> jsval \<Rightarrow> exn option"
  audioElementCurrent :: bool
  bindAudioElement :: "exn option"
  listAudioInputDevices :: "exn + device list"
  startAudioInput :: "exn option"
  listAudioOutputDevices :: "exn + device list"
  chooseAudioOutput :: "exn option"
  audioVideoStart :: "exn option"
  subscribeToActiveSpeakerDetector :: "exn option"
  patchStats :: "exn option"

text \<open>
  The first statements of \<^verbatim>\<open>setupChime\<close>, the same in every variant of the component: the
  request, the check of \<^verbatim>\<open>response.ok\<close>, \<^verbatim>\<open>response.json()\<close> and the destructuring
  \<^verbatim>\<open>const { meetingResponse, attendeeResponse } = data\<close>. A member that is missing is read as
  \<^verbatim>\<open>undefined\<close>.
\<close>

definition fetch_credentials :: "exn + response \<Rightarrow> exn \<Rightarrow> exn + jsval \<times> jsval" where
  "fetch_credentials fetch_outcome type_error =
     (case fetch_outcome of
        Inl err \<Rightarrow> Inl err
      | Inr resp \<Rightarrow>
          if \<not> ok resp then Inl (Error (''API failed with status '' @ show_nat (status resp)))
          else (case body resp of
                  Inl err \<Rightarrow> Inl err
                | Inr data \<Rightarrow>
                    if nullish data then Inl type_error
                    else Inr (get_prop data ''meetingResponse'', get_prop data ''attendeeResponse'')))"

text \<open>Microphone selection of \<^verbatim>\<open>ChimeWithTranscribe\<close>: a failure is downgraded to a warning.\<close>

definition select_microphone :: "setup_env \<Rightarrow> 'a state_scheme \<Rightarrow> 'a state_scheme" where
  "select_microphone env s =
     (case listAudioInputDevices env of
        Inl err \<Rightarrow> console_log WARN (warning_sign @ '' Microphone access issue:'') s
      | Inr devices \<Rightarrow>
          (case devices of
             [] \<Rightarrow> s
           | d # rest \<Rightarrow>
               (case startAudioInput env of
                  Some err \<Rightarrow> console_log WARN (warning_sign @ '' Microphone access issue:'') s
                | None \<Rightarrow>
                    console_log LOG (check_mark @ '' Microphone selected:'')
                      (s\<lparr>microphoneDeviceId := Some (deviceId d)\<rparr>))))"

definition select_speaker :: "setup_env \<Rightarrow> 'a demo_state_scheme \<Rightarrow> 'a demo_state_scheme" where
  "select_speaker env s =
     (case listAudioOutputDevices env of
        Inl err \<Rightarrow> console_log WARN (warning_sign @ '' Speaker selection issue:'') s
      | Inr devices \<Rightarrow>
          (case devices of
             [] \<Rightarrow> s
           | d # rest \<Rightarrow>
               (case chooseAudioOutput env of
                  Some err \<Rightarrow> console_log WARN (warning_sign @ '' Speaker selection issue:'') s
                | None \<Rightarrow> console_log LOG (check_mark @ '' Speaker selected:'') s)))"

text \<open>
  The \<^verbatim>\<open>try\<close> block of \<^verbatim>\<open>setupChime\<close> in \<^verbatim>\<open>ChimeWithTranscribe\<close>: the error it throws, if
  any, and the state it has reached by then. State set before a throw stays set.
\<close>

definition setup_try :: "setup_env \<Rightarrow> 'a state_scheme \<Rightarrow> exn option \<times> 'a state_scheme" where
  "setup_try env s0 =
     (let s1 = s0\<lparr>isLoading := True\<rparr> in
      case fetch_credentials (fetched env) (destructureError env) of
        Inl err \<Rightarrow> (Some err, s1)
      | Inr (m, a) \<Rightarrow>
          (case constructed env m a of
             Some err \<Rightarrow> (Some err, s1)
           | None \<Rightarrow>
               (let s2 = s1\<lparr>meetingSession :=
                            Some \<lparr>meetingResponse = m, attendeeResponse = a\<rparr>\<rparr> in
                case (if audioElementCurrent env then bindAudioElement env else None) of
                  Some err \<Rightarrow> (Some err, s2)
                | None \<Rightarrow>
                    (let s3 = (if audioElementCurrent env
                               then console_log LOG (check_mark @ '' Audio element bound'') s2
                               else s2);
                         s4 = select_microphone env s3;
                         s5 = select_speaker env s4
                     in case audioVideoStart env of
                          Some err \<Rightarrow> (Some err, s5)
                        | None \<Rightarrow>
                            (None, console_log LOG (dart @ '' Starting audio connection'') s5)))))"

text \<open>\<^verbatim>\<open>err.message || 'Unknown error'\<close>\<close>

definition error_text :: "exn \<Rightarrow> string" where
  "error_text err = (if message err = [] then ''Unknown error'' else message err)"

definition setupChime :: "setup_env \<Rightarrow> 'a state_scheme \<Rightarrow> 'a state_scheme" where
  "setupChime env s0 =
     (case setup_try env s0 of
        (thrown, s1) \<Rightarrow>
          (let s2 = (case thrown of
                       None \<Rightarrow> s1
                     | Some err \<Rightarrow>
                         (console_log ERROR (cross_mark @ '' Setup error:'') s1)
                           \<lparr>error := Some (error_text err)\<rparr>)
           in s2\<lparr>isLoading := False\<rparr>))"

text \<open>
  \<^verbatim>\<open>setupChime\<close> of src/ChimeDemo.tsx. It keeps no microphone id, subscribes to the active
  speaker detector, wraps the statistics call and defers \<^verbatim>\<open>session.audioVideo.start()\<close> by
  one second (\<open>deferred_start\<close> below is the timer's callback).
\<close>

definition select_microphone_demo :: "setup_env \<Rightarrow> 'a demo_state_scheme \<Rightarrow> 'a demo_state_scheme" where
  "select_microphone_demo env s =
     (case listAudioInputDevices env of
        Inl err \<Rightarrow> console_log WARN (warning_sign @ '' Microphone access issue:'') s
      | Inr devices \<Rightarrow>
          (case devices of
             [] \<Rightarrow> s
           | d # rest \<Rightarrow>
               (case startAudioInput env of
                  Some err \<Rightarrow> console_log WARN (warning_sign @ '' Microphone access issue:'') s
                | None \<Rightarrow> console_log LOG (check_mark @ '' Microphone selected:'') s)))"



definition deferred_start :: "exn option \<Rightarrow> 'a demo_state_scheme \<Rightarrow> 'a demo_state_scheme" where
  "deferred_start started s =
     (case started of
        None \<Rightarrow> console_log LOG (dart @ '' Starting audio connection...'') s
      | Some err \<Rightarrow>
          (console_log ERROR ''Failed to start session:'' s)
            \<lparr>error := Some ''Failed to start audio session''\<rparr>)"

section \<open>Conference lifecycle observers\<close>

text \<open>\<^verbatim>\<open>audioVideoDidStart\<close>, the same in every variant.\<close>

definition audioVideoDidStart :: "'a demo_state_scheme \<Rightarrow> 'a demo_state_scheme" where
  "audioVideoDidStart s =
     (console_log LOG (check_mark @ '' Audio connected successfully'') s)
       \<lparr>isConnected := True, error := None\<rparr>"

text \<open>
  \<^verbatim>\<open>MeetingSessionStatusCode\<close> is a numeric enum of the SDK whose first member is \<^verbatim>\<open>OK\<close>.
\<close>

definition MeetingSessionStatusCode_OK :: nat where
  "MeetingSessionStatusCode_OK = 0"

text \<open>\<^verbatim>\<open>audioVideoDidStop\<close> of src/ChimeDemo.tsx, given \<^verbatim>\<open>sessionStatus.statusCode()\<close>.\<close>

definition audioVideoDidStop_demo :: "nat \<Rightarrow> 'a demo_state_scheme \<Rightarrow> 'a demo_state_scheme" where
  "audioVideoDidStop_demo statusCode s0 =
     (let s1 = (console_log LOG (stop_sign @ '' Audio disconnected'') s0)\<lparr>isConnected := False\<rparr> in
      if statusCode \<noteq> MeetingSessionStatusCode_OK then
        (let errorMessage = ''Connection error: '' @ show_nat statusCode in
         (console_log ERROR errorMessage s1)\<lparr>error := Some errorMessage\<rparr>)
      else s1)"

section \<open>The transcription session of \<^verbatim>\<open>ChimeWithTranscribe\<close>\<close>

text \<open>\<^verbatim>\<open>!microphoneDeviceId\<close>: the id is \<^verbatim>\<open>null\<close> or the empty string.\<close>

fun no_device :: "string option \<Rightarrow> bool" where
  "no_device None = True"
| "no_device (Some d) = (d = [])"

text \<open>
  \<^verbatim>\<open>startTranscription\<close>. \<open>created\<close> is the outcome of \<^verbatim>\<open>new WebSocket(url)\<close>. The new socket
  is connecting; its handlers run later, as events. Nothing here looks at
  \<^verbatim>\<open>webSocket.current\<close> before it is overwritten.
\<close>

definition startTranscription :: "exn option \<Rightarrow> 'a state_scheme \<Rightarrow> 'a state_scheme" where
  "startTranscription created s =
     (if no_device (microphoneDeviceId s) \<or> \<not> isConnected s
      then s\<lparr>error := Some ''Microphone or connection not available''\<rparr>
      else (case created of
              Some err \<Rightarrow>
                (console_log ERROR ''Failed to start transcription:'' s)
                  \<lparr>error := Some ''Failed to start transcription''\<rparr>
            | None \<Rightarrow>
                s\<lparr>sockets := (sockets s)(socketCount s :=
                       \<lparr>readyState = CONNECTING, sent = [],
                        capturedDeviceId = microphoneDeviceId s\<rparr>),
                  socketCount := Suc (socketCount s),
                  webSocket := Some (socketCount s)\<rparr>))"

text \<open>
  \<^verbatim>\<open>MediaRecorder.stop()\<close>: the recorder becomes inactive and keeps its stream, whose tracks
  it does not stop. Called on an inactive recorder it throws in browsers that follow the
  earlier drafts of the recording API, the case the source guards against.
\<close>

definition recorder_stop :: "media_recorder \<Rightarrow> exn + media_recorder" where
  "recorder_stop r =
     (if recorderState r = inactive then Inl (Error ''InvalidStateError'')
      else Inr (r\<lparr>recorderState := inactive\<rparr>))"

text \<open>\<^verbatim>\<open>WebSocket.close()\<close> starts the closing handshake and never throws without arguments.\<close>

definition socket_close :: "web_socket \<Rightarrow> web_socket" where
  "socket_close sk =
     (if readyState sk = CLOSING \<or> readyState sk = CLOSED then sk
      else sk\<lparr>readyState := CLOSING\<rparr>)"

text \<open>
  \<^verbatim>\<open>WebSocket.send\<close>: throws while the socket is connecting, queues the message while it is
  open, and discards it once the socket is closing or closed.
\<close>

definition socket_send :: "outbound \<Rightarrow> web_socket \<Rightarrow> exn + web_socket" where
  "socket_send msg sk =
     (case readyState sk of
        CONNECTING \<Rightarrow> Inl (Error ''InvalidStateError'')
      | OPEN \<Rightarrow> Inr (sk\<lparr>sent := sent sk @ [msg]\<rparr>)
      | CLOSING \<Rightarrow> Inr sk
      | CLOSED \<Rightarrow> Inr sk)"

text \<open>
  \<^verbatim>\<open>stopTranscription\<close>: the error it throws, if any, and the state reached. The recorder is
  stopped when it is not inactive, the socket is closed when it is open and forgotten in any
  case. \<^verbatim>\<open>mediaRecorder.current\<close> keeps pointing to the stopped recorder, and no statement
  touches the media stream.
\<close>

definition stopTranscription :: "'a state_scheme \<Rightarrow> exn option \<times> 'a state_scheme" where
  "stopTranscription s =
     (case (case mediaRecorder s of
              None \<Rightarrow> Inr s
            | Some r \<Rightarrow>
                if recorderState (recorders s r) \<noteq> inactive
                then (case recorder_stop (recorders s r) of
                        Inl err \<Rightarrow> Inl err
                      | Inr stopped \<Rightarrow> Inr (s\<lparr>recorders := (recorders s)(r := stopped)\<rparr>))
                else Inr s) of
        Inl err \<Rightarrow> (Some err, s)
      | Inr s1 \<Rightarrow>
          (let s2 = (case webSocket s1 of
                       None \<Rightarrow> s1
                     | Some ws \<Rightarrow>
                         (if readyState (sockets s1 ws) = OPEN
                          then s1\<lparr>sockets := (sockets s1)(ws := socket_close (sockets s1 ws))\<rparr>
                          else s1)\<lparr>webSocket := None\<rparr>)
           in (None, s2\<lparr>isTranscribing := False\<rparr>)))"

text \<open>
  What the browser answers during one run of \<^verbatim>\<open>startAudioCapture\<close>: the outcomes of
  \<^verbatim>\<open>getUserMedia\<close>, of \<^verbatim>\<open>new MediaRecorder(stream, options)\<close> and of \<^verbatim>\<open>recorder.start(250)\<close>.
\<close>

record capture_env =
  getUserMedia :: "exn option"
  newMediaRecorder :: "exn option"
  recorderStart :: "exn option"

definition capture_failed :: "'a state_scheme \<Rightarrow> 'a state_scheme" where
  "capture_failed s =
     (console_log ERROR ''Error capturing audio:'' s)
       \<lparr>error := Some ''Error capturing audio for transcription'', isTranscribing := False\<rparr>"

text \<open>
  \<^verbatim>\<open>startAudioCapture(ws)\<close>, run in one piece: no other event is taken between the call of
  \<^verbatim>\<open>getUserMedia\<close> and its answer. The device id is the one the closure captured. A stream
  that has been acquired is live, also when the recorder then fails.
\<close>

definition startAudioCapture :: "capture_env \<Rightarrow> nat \<Rightarrow> 'a state_scheme \<Rightarrow> 'a state_scheme" where
  "startAudioCapture env ws s =
     (if no_device (capturedDeviceId (sockets s ws)) then s
      else (case getUserMedia env of
              Some err \<Rightarrow> capture_failed s
            | None \<Rightarrow>
                (let stream = streamCount s;
                     s1 = s\<lparr>streamLive := (streamLive s)(stream := True),
                            streamCount := Suc stream\<rparr>
                 in case newMediaRecorder env of
                      Some err \<Rightarrow> capture_failed s1
                    | None \<Rightarrow>
                        (let r = recorderCount s1;
                             s2 = s1\<lparr>recorders := (recorders s1)(r :=
                                         \<lparr>recorderState = inactive, recorderStream = stream,
                                          recorderSocket = ws\<rparr>),
                                     recorderCount := Suc r,
                                     audioChunks := []\<rparr>
                         in case recorderStart env of
                              Some err \<Rightarrow> capture_failed s2
                            | None \<Rightarrow>
                                s2\<lparr>recorders := (recorders s2)(r :=
                                       (recorders s2 r)\<lparr>recorderState := recording\<rparr>),
                                   mediaRecorder := Some r\<rparr>))))"

definition ws_onopen :: "capture_env \<Rightarrow> nat \<Rightarrow> 'a state_scheme \<Rightarrow> 'a state_scheme" where
  "ws_onopen env ws s =
     startAudioCapture env ws
       ((console_log LOG ''WebSocket connection established'' s)\<lparr>isTranscribing := True\<rparr>)"

definition ws_onerror :: "'a state_scheme \<Rightarrow> 'a state_scheme" where
  "ws_onerror s =
     (console_log ERROR ''WebSocket error:'' s)
       \<lparr>error := Some ''Transcription service error'', isTranscribing := False\<rparr>"

definition ws_onclose :: "'a state_scheme \<Rightarrow> 'a state_scheme" where
  "ws_onclose s = (console_log LOG ''WebSocket connection closed'' s)\<lparr>isTranscribing := False\<rparr>"

text \<open>
  \<^verbatim>\<open>recorder.ondataavailable\<close> of recorder \<open>r\<close> with \<^verbatim>\<open>event.data\<close>. The buffer is emptied in
  every case; a \<^verbatim>\<open>FileReader\<close> is started for the blob only when the captured socket is open.
\<close>

definition recorder_ondataavailable :: "nat \<Rightarrow> blob \<Rightarrow> 'a state_scheme \<Rightarrow> 'a state_scheme" where
  "recorder_ondataavailable r data s =
     (let chunks = (if length data > 0 then audioChunks s @ [data] else audioChunks s);
          blob = concat chunks;
          s1 = s\<lparr>audioChunks := []\<rparr>;
          ws = recorderSocket (recorders s r)
      in if readyState (sockets s ws) = OPEN
         then s1\<lparr>pendingReads := pendingReads s1 @ [(ws, blob)]\<rparr>
         else s1)"

text \<open>
  \<^verbatim>\<open>reader.onloadend\<close> of the \<open>k\<close>-th pending reader: the message is handed to \<^verbatim>\<open>ws.send\<close>.
  An error thrown there is not caught and leaves the state as it is.
\<close>

definition reader_onloadend :: "nat \<Rightarrow> 'a state_scheme \<Rightarrow> 'a state_scheme" where
  "reader_onloadend k s =
     (if k < length (pendingReads s) then
        (case pendingReads s ! k of
           (ws, blob) \<Rightarrow>
             (let s1 = s\<lparr>pendingReads := take k (pendingReads s) @ drop (Suc k) (pendingReads s)\<rparr>
              in case socket_send
                        \<lparr>action = ''startTranscription'', audioData = blob,
                         languageCode = ''en-US''\<rparr> (sockets s1 ws) of
                   Inl err \<Rightarrow> s1
                 | Inr sk \<Rightarrow> s1\<lparr>sockets := (sockets s1)(ws := sk)\<rparr>))
      else s)"

definition toggleTranscription :: "exn option \<Rightarrow> 'a state_scheme \<Rightarrow> exn option \<times> 'a state_scheme" where
  "toggleTranscription created s =
     (if isTranscribing s then stopTranscription s
      else (None, startTranscription created s))"

text \<open>\<^verbatim>\<open>audioVideoDidStop\<close> of \<^verbatim>\<open>ChimeWithTranscribe\<close>.\<close>

definition audioVideoDidStop :: "'a state_scheme \<Rightarrow> exn option \<times> 'a state_scheme" where
  "audioVideoDidStop s =
     stopTranscription
       ((console_log LOG (stop_sign @ '' Audio disconnected'') s)\<lparr>isConnected := False\<rparr>)"

section \<open>The component as an event-driven machine\<close>

text \<open>The state of the first render: the initial values of the hooks, and no browser object.\<close>

definition init :: state where
  "init =
     \<lparr>meetingSession = None, isLoading = True, error = None, isConnected = False, console = [],
      transcripts = [], latestTranscript = JString [], isTranscribing = False,
      microphoneDeviceId = None, webSocket = None, mediaRecorder = None, audioChunks = [],
      sockets = (\<lambda>ws. \<lparr>readyState = CLOSED, sent = [], capturedDeviceId = None\<rparr>),
      socketCount = 0,
      recorders = (\<lambda>r. \<lparr>recorderState = inactive, recorderStream = 0, recorderSocket = 0\<rparr>),
      recorderCount = 0,
      streamLive = (\<lambda>i. False), streamCount = 0, pendingReads = []\<rparr>"

text \<open>
  What can happen to the mounted component: the effect that runs \<^verbatim>\<open>setupChime\<close>, the
  observers of the session, a click on the transcription button, and the events of the
  sockets, recorders and readers.
\<close>

datatype event =
    Mount setup_env
  | AudioVideoDidStart
  | AudioVideoDidStop
  | ClickToggle "exn option"
  | WsOpen nat capture_env
  | WsMessage nat "exn + jsval"
  | WsError nat
  | WsClose nat
  | DataAvailable nat blob
  | ReaderLoadEnd nat

definition set_ready :: "nat \<Rightarrow> ready_state \<Rightarrow> 'a state_scheme \<Rightarrow> 'a state_scheme" where
  "set_ready ws rs s = s\<lparr>sockets := (sockets s)(ws := (sockets s ws)\<lparr>readyState := rs\<rparr>)\<rparr>"

text \<open>
  One event. The browser delivers an event only where it can occur: the button exists while
  the conference is connected, a socket opens once, receives messages while open or closing,
  and closes once; a recorder or reader must exist. The browser sets \<^verbatim>\<open>readyState\<close> before
  it runs \<^verbatim>\<open>onopen\<close> and \<^verbatim>\<open>onclose\<close>. An error that escapes a handler is reported by the
  browser and the state reached stays.
\<close>

fun step :: "state \<Rightarrow> event \<Rightarrow> state" where
  "step s (Mount env) = setupChime env s"
| "step s AudioVideoDidStart = audioVideoDidStart s"
| "step s AudioVideoDidStop = snd (audioVideoDidStop s)"
| "step s (ClickToggle created) =
     (if isConnected s then snd (toggleTranscription created s) else s)"
| "step s (WsOpen ws env) =
     (if ws < socketCount s \<and> readyState (sockets s ws) = CONNECTING
      then ws_onopen env ws (set_ready ws OPEN s) else s)"
| "step s (WsMessage ws parsed) =
     (if ws < socketCount s \<and> (readyState (sockets s ws) = OPEN \<or> readyState (sockets s ws) = CLOSING)
      then ws_onmessage parsed s else s)"
| "step s (WsError ws) =
     (if ws < socketCount s \<and> readyState (sockets s ws) \<noteq> CLOSED then ws_onerror s else s)"
| "step s (WsClose ws) =
     (if ws < socketCount s \<and> readyState (sockets s ws) \<noteq> CLOSED
      then ws_onclose (set_ready ws CLOSED s) else s)"
| "step s (DataAvailable r data) =
     (if r < recorderCount s then recorder_ondataavailable r data s else s)"
| "step s (ReaderLoadEnd k) = reader_onloadend k s"

definition run :: "event list \<Rightarrow> state \<Rightarrow> state" where
  "run evs s = foldl step s evs"

text \<open>The sockets that are open, and the media streams that are live.\<close>

definition open_sockets :: "'a state_scheme \<Rightarrow> nat list" where
  "open_sockets s = filter (\<lambda>ws. readyState (sockets s ws) = OPEN) [0..<socketCount s]"

definition live_streams :: "'a state_scheme \<Rightarrow> nat list" where
  "live_streams s = filter (streamLive s) [0..<streamCount s]"

section \<open>Vocabulary of the properties\<close>

text \<open>
  A final transcript event as the handler tells it: the type is \<^verbatim>\<open>'transcript'\<close> and
  \<^verbatim>\<open>isPartial\<close> is falsy. Its text is whatever \<^verbatim>\<open>data.transcript\<close> reads.
\<close>

definition final_event :: "jsval \<Rightarrow> bool" where
  "final_event data =
     (get_prop data ''type'' = JString ''transcript'' \<and> \<not> truthy (get_prop data ''isPartial''))"

definition event_text :: "jsval \<Rightarrow> jsval" where
  "event_text data = get_prop data ''transcript''"

text \<open>A sequence of parsed messages handed to \<^verbatim>\<open>ws.onmessage\<close> one after the other.\<close>

definition deliver :: "jsval list \<Rightarrow> 'a state_scheme \<Rightarrow> 'a state_scheme" where
  "deliver ds s = foldl (\<lambda>s' d. ws_onmessage (Inr d) s') s ds"







text \<open>
  A run in which transcription is never started: the button is never clicked. In such a
  run the component stays \<open>idle\<close>: no socket, recorder or media stream has been created, the
  refs are empty and the transcribing flag is off.
\<close>

fun is_click :: "event \<Rightarrow> bool" where
  "is_click (ClickToggle created) = True"
| "is_click e = False"

definition never_started :: "event list \<Rightarrow> bool" where
  "never_started evs = (filter is_click evs = [])"

definition idle :: "'a state_scheme \<Rightarrow> bool" where
  "idle s =
     (socketCount s = 0 \<and> recorderCount s = 0 \<and> streamCount s = 0 \<and> mediaRecorder s = None
      \<and> webSocket s = None \<and> isTranscribing s = False \<and> pendingReads s = [])"

text \<open>The inbound message \<^verbatim>\<open>{type: 'transcript', isPartial, transcript}\<close>.\<close>

definition transcript_message :: "bool \<Rightarrow> string \<Rightarrow> jsval" where
  "transcript_message partial txt =
     JObject [(''type'', JString ''transcript''), (''isPartial'', JBool partial),
              (''transcript'', JString txt)]"


section \<open>Sample runs\<close>

text \<open>
  A provisioning payload with both descriptors, and a browser in which every call succeeds:
  one microphone \<^verbatim>\<open>mic-1\<close>, one speaker \<^verbatim>\<open>spk-1\<close>, constructors that accept any descriptors.
\<close>

definition sample_payload :: jsval where
  "sample_payload =
     JObject [(''meetingResponse'', JObject [(''Meeting'', JObject [])]),
              (''attendeeResponse'', JObject [(''Attendee'', JObject [])])]"

definition sample_env :: "exn + response \<Rightarrow> setup_env" where
  "sample_env fetch_outcome =
     \<lparr>fetched = fetch_outcome,
      destructureError = Error ''Cannot destructure property of null'',
      constructed = (\<lambda>m a. None),
      audioElementCurrent = True,
      bindAudioElement = None,
      listAudioInputDevices = Inr [\<lparr>deviceId = ''mic-1'', label = ''Microphone''\<rparr>],
      startAudioInput = None,
      listAudioOutputDevices = Inr [\<lparr>deviceId = ''spk-1'', label = ''Speaker''\<rparr>],
      chooseAudioOutput = None,
      audioVideoStart = None,
      subscribeToActiveSpeakerDetector = None,
      patchStats = None\<rparr>"

definition capture_ok :: capture_env where
  "capture_ok = \<lparr>getUserMedia = None, newMediaRecorder = None, recorderStart = None\<rparr>"

text \<open>The component after a successful setup, once the conference has connected.\<close>

definition connected :: state where
  "connected =
     run [Mount (sample_env (Inr \<lparr>status = 200, body = Inr sample_payload\<rparr>)),
          AudioVideoDidStart] init"

text \<open>Transcription started, socket opened and capture running.\<close>

definition capturing :: state where
  "capturing = run [ClickToggle None, WsOpen 0 capture_ok] connected"

text \<open>The same, then stopped by a click.\<close>

definition stopped_once :: state where
  "stopped_once = run [ClickToggle None, WsOpen 0 capture_ok, ClickToggle None] connected"

text \<open>Two clicks on the button before the first socket has opened; then both sockets open.\<close>

definition double_start :: state where
  "double_start =
     run [ClickToggle None, ClickToggle None, WsOpen 0 capture_ok, WsOpen 1 capture_ok] connected"

text \<open>Capture running on a socket that the server has closed.\<close>

definition capturing_closed :: state where
  "capturing_closed = run [ClickToggle None, WsOpen 0 capture_ok, WsClose 0] connected"

section \<open>Evaluation of the sample runs\<close>

lemmas handler_defs =
  run_def init_def setupChime_def setup_try_def fetch_credentials_def ok_def
  select_microphone_def select_speaker_def console_log_def error_text_def
  audioVideoDidStart_def audioVideoDidStop_def toggleTranscription_def
  startTranscription_def stopTranscription_def recorder_stop_def socket_close_def
  startAudioCapture_def capture_failed_def ws_onopen_def ws_onerror_def ws_onclose_def
  recorder_ondataavailable_def set_ready_def sample_env_def sample_payload_def capture_ok_def
  connected_def

lemma connected_fields:
  "isConnected connected" "microphoneDeviceId connected = Some ''mic-1''"
  "isTranscribing connected = False" "socketCount connected = 0" "streamCount connected = 0"
  "recorderCount connected = 0" "webSocket connected = None" "mediaRecorder connected = None"
  "error connected = None"
  by (simp_all add: handler_defs)

section \<open>Transcript aggregation\<close>

lemma typed_not_nullish: "get_prop data k = JString str \<Longrightarrow> \<not> nullish data"
  by (cases data) auto

text \<open>
  C1. For a message parsed as \<^verbatim>\<open>{type: 'transcript', isPartial, transcript}\<close>: when
  \<^verbatim>\<open>isPartial\<close> is true the handler replaces \<open>latestTranscript\<close> by the text and changes nothing
  else, so the history stays; when it is false the handler appends the text to the history
  and sets \<open>latestTranscript\<close> to the same text. In both cases \<open>latestTranscript\<close> is the text of
  the event just received.
\<close>

theorem ws_onmessage_transcript_event:
  assumes "get_prop data ''type'' = JString ''transcript''"
    and "get_prop data ''isPartial'' = JBool partial"
    and "get_prop data ''transcript'' = JString txt"
  shows "ws_onmessage (Inr data) s =
           (if partial then s\<lparr>latestTranscript := JString txt\<rparr>
            else s\<lparr>transcripts := transcripts s @ [JString txt],
                   latestTranscript := JString txt\<rparr>)
         \<and> latestTranscript (ws_onmessage (Inr data) s) = JString txt"
  using assms typed_not_nullish[OF assms(1)]
  by (simp add: ws_onmessage_def process_transcript_def)

theorem ws_onmessage_transcript_event_witness:
  "ws_onmessage (Inr (transcript_message True ''hel'')) init
     = init\<lparr>latestTranscript := JString ''hel''\<rparr>
   \<and> transcripts (ws_onmessage (Inr (transcript_message False ''hello''))
        (ws_onmessage (Inr (transcript_message True ''hel'')) init)) = [JString ''hello'']
   \<and> latestTranscript (ws_onmessage (Inr (transcript_message False ''hello''))
        (ws_onmessage (Inr (transcript_message True ''hel'')) init)) = JString ''hello''"
  using ws_onmessage_transcript_event[of "transcript_message True ''hel''" True "''hel''" init]
    ws_onmessage_transcript_event[of "transcript_message False ''hello''" False "''hello''"
      "init\<lparr>latestTranscript := JString ''hel''\<rparr>"]
  by (simp add: transcript_message_def init_def)

lemma final_step:
  "final_event d \<Longrightarrow> transcripts (ws_onmessage (Inr d) s) = transcripts s @ [event_text d]"
  by (cases "nullish d")
    (auto simp: final_event_def event_text_def ws_onmessage_def process_transcript_def
      elim: nullish.elims)

lemma deliver_final:
  "list_all final_event ds \<Longrightarrow> transcripts (deliver ds s) = transcripts s @ map event_text ds"
  unfolding deliver_def
  by (induction ds arbitrary: s) (simp_all add: final_step)

text \<open>
  C2. The history is append-only: after any sequence of N final transcript events the
  history is the history before followed by the N texts in the order of arrival. So its
  length grows by N, the entries that were there keep their places, and a text that occurs
  twice is kept twice.
\<close>

theorem history_append_only:
  assumes "list_all final_event ds"
  shows "transcripts (deliver ds s) = transcripts s @ map event_text ds
       \<and> length (transcripts (deliver ds s)) = length (transcripts s) + length ds
       \<and> take (length (transcripts s)) (transcripts (deliver ds s)) = transcripts s"
  by (simp add: deliver_final[OF assms])

theorem history_append_only_witness:
  "list_all final_event [transcript_message False ''a'', transcript_message False ''a'']
   \<and> transcripts (deliver [transcript_message False ''a'', transcript_message False ''a'']
        (init\<lparr>transcripts := [JString ''b'', JString ''a'']\<rparr>))
     = [JString ''b'', JString ''a'', JString ''a'', JString ''a'']"
  using history_append_only[of "[transcript_message False ''a'', transcript_message False ''a'']"
     "init\<lparr>transcripts := [JString ''b'', JString ''a'']\<rparr>"]
  by (simp add: final_event_def transcript_message_def event_text_def)




section \<open>Stopping transcription\<close>

text \<open>
  C3, as the claim states it, fails: on a session that has already been stopped, the media
  stream that the capture acquired is still live after \<^verbatim>\<open>stopTranscription\<close>. The first stop
  has made the recorder inactive and started closing the socket; neither stop touches the
  stream.
\<close>

theorem stopped_stream_stays_live:
  "readyState (sockets stopped_once 0) = CLOSING
   \<and> recorderState (recorders stopped_once 0) = inactive
   \<and> isTranscribing stopped_once = False
   \<and> live_streams stopped_once = [0]
   \<and> live_streams (snd (stopTranscription stopped_once)) = [0]"
  by (simp add: stopped_once_def handler_defs live_streams_def Let_def)

lemma idle_init: "idle init"
  by (simp add: idle_def init_def)

lemma idle_stop: "idle s \<Longrightarrow> stopTranscription s = (None, s)"
  by (simp add: idle_def stopTranscription_def)

lemma idle_console_log [simp]: "idle (console_log l t s) = idle s"
  by (simp add: idle_def console_log_def)

lemma idle_select_microphone [simp]: "idle (select_microphone env s) = idle s"
  by (simp add: select_microphone_def idle_def[of "s\<lparr>microphoneDeviceId := _\<rparr>"] idle_def[of s]
      split: sum.splits list.splits option.splits)

lemma idle_select_speaker [simp]: "idle (select_speaker env s) = idle s"
  by (simp add: select_speaker_def split: sum.splits list.splits option.splits)

lemma idle_demo_updates [simp]:
  "idle (s\<lparr>isLoading := l\<rparr>) = idle s"
  "idle (s\<lparr>meetingSession := ms\<rparr>) = idle s"
  "idle (s\<lparr>error := er\<rparr>) = idle s"
  "idle (s\<lparr>isConnected := c\<rparr>) = idle s"
  by (simp_all add: idle_def)

lemma idle_setup_try: "idle (snd (setup_try env s)) = idle s"
  by (simp add: setup_try_def Let_def split: sum.splits prod.splits option.splits)

lemma idle_setupChime:
  assumes "idle s"
  shows "idle (setupChime env s)"
proof -
  obtain thrown s1 where tried: "setup_try env s = (thrown, s1)"
    by (cases "setup_try env s")
  with idle_setup_try[of env s] assms have "idle s1" by simp
  then show ?thesis using tried by (simp add: setupChime_def Let_def split: option.splits)
qed

lemma idle_step: "idle s \<Longrightarrow> \<not> is_click e \<Longrightarrow> idle (step s e)"
proof (cases e)
  case (Mount env)
  assume "idle s" then show ?thesis using Mount by (simp add: idle_setupChime)
next
  case AudioVideoDidStart
  assume "idle s" then show ?thesis using AudioVideoDidStart
    by (simp add: idle_def audioVideoDidStart_def console_log_def)
next
  case AudioVideoDidStop
  assume "idle s" then show ?thesis using AudioVideoDidStop
    by (simp add: idle_def audioVideoDidStop_def stopTranscription_def console_log_def)
next
  case (ClickToggle c)
  assume "\<not> is_click e" then show ?thesis using ClickToggle by simp
next
  case (WsOpen ws env)
  assume "idle s" then show ?thesis using WsOpen by (simp add: idle_def)
next
  case (WsMessage ws m)
  assume "idle s" then show ?thesis using WsMessage by (simp add: idle_def)
next
  case (WsError ws)
  assume "idle s" then show ?thesis using WsError by (simp add: idle_def)
next
  case (WsClose ws)
  assume "idle s" then show ?thesis using WsClose by (simp add: idle_def)
next
  case (DataAvailable r d)
  assume "idle s" then show ?thesis using DataAvailable by (simp add: idle_def)
next
  case (ReaderLoadEnd k)
  assume "idle s" then show ?thesis using ReaderLoadEnd
    by (simp add: idle_def reader_onloadend_def)
qed

lemma idle_run: "idle s \<Longrightarrow> never_started evs \<Longrightarrow> idle (run evs s)"
  unfolding run_def never_started_def
  by (induction evs arbitrary: s) (auto simp: idle_step split: if_splits)


lemma stop_inactive_recorder:
  "recorderState r = inactive \<Longrightarrow> r\<lparr>recorderState := inactive\<rparr> = r"
  by (cases r) simp

lemma stop_state:
  "snd (stopTranscription s) =
     s\<lparr>recorders :=
         (case mediaRecorder s of
            None \<Rightarrow> recorders s
          | Some r \<Rightarrow> (recorders s)(r := (recorders s r)\<lparr>recorderState := inactive\<rparr>)),
       sockets :=
         (case webSocket s of
            None \<Rightarrow> sockets s
          | Some ws \<Rightarrow>
              if readyState (sockets s ws) = OPEN
              then (sockets s)(ws := (sockets s ws)\<lparr>readyState := CLOSING\<rparr>)
              else sockets s),
       webSocket := None, isTranscribing := False\<rparr>"
  by (simp add: stopTranscription_def recorder_stop_def socket_close_def Let_def
      stop_inactive_recorder split: option.splits)

text \<open>
  C3, amended. \<^verbatim>\<open>stopTranscription\<close> throws in no state and sets no error. What it does is
  exactly this: the recorder that \<^verbatim>\<open>mediaRecorder.current\<close> points to is made inactive, the
  socket that \<^verbatim>\<open>webSocket.current\<close> points to starts closing when it is open, the socket
  handle is cleared and the transcribing flag is turned off; nothing else changes. It is
  idempotent: on the state a stop has left, a second stop changes nothing. In a run in
  which transcription was never started, a stop changes nothing, and no media stream has
  been acquired, so none is left dangling. It does not release media streams: every stream
  is as live after the stop as before it.
\<close>

theorem stopTranscription_safe_idempotent:
  "fst (stopTranscription s) = None
   \<and> error (snd (stopTranscription s)) = error s
   \<and> snd (stopTranscription s) =
       s\<lparr>recorders :=
           (case mediaRecorder s of
              None \<Rightarrow> recorders s
            | Some r \<Rightarrow> (recorders s)(r := (recorders s r)\<lparr>recorderState := inactive\<rparr>)),
         sockets :=
           (case webSocket s of
              None \<Rightarrow> sockets s
            | Some ws \<Rightarrow>
                if readyState (sockets s ws) = OPEN
                then (sockets s)(ws := (sockets s ws)\<lparr>readyState := CLOSING\<rparr>)
                else sockets s),
         webSocket := None, isTranscribing := False\<rparr>
   \<and> stopTranscription (snd (stopTranscription s)) = (None, snd (stopTranscription s))
   \<and> (never_started evs \<longrightarrow>
         stopTranscription (run evs init) = (None, run evs init)
       \<and> streamCount (run evs init) = 0
       \<and> live_streams (run evs init) = [])
   \<and> streamLive (snd (stopTranscription s)) = streamLive s
   \<and> streamCount (snd (stopTranscription s)) = streamCount s"
proof -
  have no_throw: "fst (stopTranscription s) = None"
    by (simp add: stopTranscription_def recorder_stop_def Let_def split: option.splits)
  have same_error: "error (snd (stopTranscription s)) = error s"
    by (simp add: stop_state)
  have again: "stopTranscription (snd (stopTranscription s)) = (None, snd (stopTranscription s))"
    by (simp add: stopTranscription_def recorder_stop_def Let_def split: option.splits)
  have fresh: "stopTranscription (run evs init) = (None, run evs init)
       \<and> streamCount (run evs init) = 0 \<and> live_streams (run evs init) = []"
    if "never_started evs"
    using idle_stop[OF idle_run[OF idle_init that]] idle_run[OF idle_init that]
    by (simp add: idle_def live_streams_def)
  have same_live: "streamLive (snd (stopTranscription s)) = streamLive s"
    by (simp add: stop_state)
  have same_count: "streamCount (snd (stopTranscription s)) = streamCount s"
    by (simp add: stop_state)
  from no_throw same_error stop_state[of s] again fresh same_live same_count
  show ?thesis by blast
qed

theorem stopTranscription_safe_idempotent_witness:
  "never_started [Mount (sample_env (Inr \<lparr>status = 200, body = Inr sample_payload\<rparr>)),
                  AudioVideoDidStart]
   \<and> stopTranscription connected = (None, connected)
   \<and> live_streams connected = []
   \<and> recorderState (recorders capturing 0) = recording
   \<and> readyState (sockets capturing 0) = OPEN
   \<and> fst (stopTranscription capturing) = None
   \<and> recorderState (recorders (snd (stopTranscription capturing)) 0) = inactive
   \<and> readyState (sockets (snd (stopTranscription capturing)) 0) = CLOSING
   \<and> webSocket (snd (stopTranscription capturing)) = None
   \<and> isTranscribing (snd (stopTranscription capturing)) = False"
proof -
  have quiet:
    "never_started [Mount (sample_env (Inr \<lparr>status = 200, body = Inr sample_payload\<rparr>)),
                    AudioVideoDidStart]"
    by (simp add: never_started_def)
  have handles: "mediaRecorder capturing = Some 0" "webSocket capturing = Some 0"
    by (simp_all add: capturing_def handler_defs Let_def)
  have before: "recorderState (recorders capturing 0) = recording"
    "readyState (sockets capturing 0) = OPEN"
    by (simp_all add: capturing_def handler_defs Let_def)
  from stopTranscription_safe_idempotent[of capturing
      "[Mount (sample_env (Inr \<lparr>status = 200, body = Inr sample_payload\<rparr>)), AudioVideoDidStart]"]
    quiet handles before
  show ?thesis
    by (simp add: connected_def)
qed

text \<open>
  C9. \<^verbatim>\<open>stopTranscription\<close> leaves the history and \<open>latestTranscript\<close> unchanged in every state:
  the state it returns differs from the one it was called in at most in the recorders, the
  sockets, the socket handle and the transcribing flag.
\<close>

theorem stopTranscription_keeps_transcripts:
  "transcripts (snd (stopTranscription s)) = transcripts s
   \<and> latestTranscript (snd (stopTranscription s)) = latestTranscript s
   \<and> snd (stopTranscription s) =
       s\<lparr>recorders := recorders (snd (stopTranscription s)),
         sockets := sockets (snd (stopTranscription s)),
         webSocket := None, isTranscribing := False\<rparr>"
  by (simp add: stopTranscription_def recorder_stop_def Let_def split: option.splits)

section \<open>Starting transcription twice\<close>

text \<open>
  C6. The code at the run \<open>double_start\<close>: the button is clicked twice while the first socket
  is still connecting (\<open>isTranscribing\<close> becomes true only in \<^verbatim>\<open>onopen\<close>), and both sockets
  open. Two sockets are then open and two media streams live, the handle points to the
  second socket only, and a stop closes that one and leaves the first open.
\<close>

theorem double_start_leaves_two_sockets_open:
  "open_sockets double_start = [0, 1] \<and> webSocket double_start = Some 1
   \<and> live_streams double_start = [0, 1]
   \<and> open_sockets (snd (stopTranscription double_start)) = [0]"
  by (simp add: double_start_def handler_defs open_sockets_def live_streams_def Let_def)

section \<open>Chunks and transport health\<close>

text \<open>
  C5. When the socket that the recorder's handler captured is not open at a chunk boundary,
  the handler only empties the buffer: the chunk is not kept in \<open>audioChunks\<close>, no reader is
  started and nothing is sent (now or later), no error is set, and the recorder is left as
  it is, so it goes on recording and delivering chunks. The handlers of a socket error and
  of a socket close leave the recorders as they are, too.
\<close>

theorem chunk_dropped_when_socket_not_open:
  assumes "readyState (sockets s (recorderSocket (recorders s r))) \<noteq> OPEN"
  shows "recorder_ondataavailable r data s = s\<lparr>audioChunks := []\<rparr>
       \<and> sockets (recorder_ondataavailable r data s) = sockets s
       \<and> pendingReads (recorder_ondataavailable r data s) = pendingReads s
       \<and> audioChunks (recorder_ondataavailable r data s) = []
       \<and> error (recorder_ondataavailable r data s) = error s
       \<and> recorders (recorder_ondataavailable r data s) = recorders s
       \<and> recorders (ws_onerror s) = recorders s
       \<and> recorders (ws_onclose (set_ready ws CLOSED s)) = recorders s"
  using assms
  by (simp add: recorder_ondataavailable_def ws_onerror_def ws_onclose_def set_ready_def
      console_log_def Let_def)

theorem chunk_dropped_when_socket_not_open_witness:
  "readyState (sockets capturing_closed (recorderSocket (recorders capturing_closed 0))) \<noteq> OPEN
   \<and> recorderState (recorders capturing_closed 0) = recording
   \<and> step capturing_closed (DataAvailable 0 ''abc'') = capturing_closed\<lparr>audioChunks := []\<rparr>
   \<and> pendingReads (step capturing_closed (DataAvailable 0 ''abc'')) = []
   \<and> sent (sockets (step capturing_closed (DataAvailable 0 ''abc'')) 0) = []
   \<and> recorderState (recorders (step capturing_closed (DataAvailable 0 ''abc'')) 0) = recording"
proof -
  have not_open:
    "readyState (sockets capturing_closed (recorderSocket (recorders capturing_closed 0))) \<noteq> OPEN"
    by (simp add: capturing_closed_def handler_defs Let_def)
  have created: "0 < recorderCount capturing_closed"
    by (simp add: capturing_closed_def handler_defs Let_def)
  have still_recording: "recorderState (recorders capturing_closed 0) = recording"
    by (simp add: capturing_closed_def handler_defs Let_def)
  have none_pending: "pendingReads capturing_closed = []"
    by (simp add: capturing_closed_def handler_defs Let_def)
  have none_sent: "sent (sockets capturing_closed 0) = []"
    by (simp add: capturing_closed_def handler_defs Let_def)
  from chunk_dropped_when_socket_not_open[OF not_open, of "''abc''"]
    not_open created still_recording none_pending none_sent
  show ?thesis by simp
qed

section \<open>Conference lifecycle\<close>

text \<open>
  C8. In src/ChimeDemo.tsx, \<^verbatim>\<open>audioVideoDidStop\<close> always sets \<open>isConnected\<close> to false. With a
  status code other than \<^verbatim>\<open>OK\<close> it sets the error to \<^verbatim>\<open>Connection error: <code>\<close>; with the
  status \<^verbatim>\<open>OK\<close> it leaves the error state as it was.
\<close>

theorem audioVideoDidStop_status:
  "isConnected (audioVideoDidStop_demo code s) = False
   \<and> error (audioVideoDidStop_demo code s) =
       (if code = MeetingSessionStatusCode_OK then error s
        else Some (''Connection error: '' @ show_nat code))"
  by (simp add: audioVideoDidStop_demo_def console_log_def Let_def)

theorem audioVideoDidStop_status_witness:
  "error (audioVideoDidStop_demo 6 (demo_state.truncate init)) = Some ''Connection error: 6''
   \<and> error (audioVideoDidStop_demo 0 (demo_state.truncate init)) = None"
  using audioVideoDidStop_status[of 6 "demo_state.truncate init"]
        audioVideoDidStop_status[of 0 "demo_state.truncate init"]
  by (simp add: MeetingSessionStatusCode_OK_def show_nat.simps digit_def init_def
      demo_state.truncate_def)

text \<open>
  C10. After \<^verbatim>\<open>audioVideoDidStart\<close>, in every variant of the component and whatever the state
  before, \<open>isConnected\<close> is true and the error is cleared.
\<close>

theorem audioVideoDidStart_clears_error:
  "isConnected (audioVideoDidStart s) = True \<and> error (audioVideoDidStart s) = None"
  by (simp add: audioVideoDidStart_def console_log_def)

section \<open>Provisioning\<close>






lemma meetingSession_console_log [simp]:
  "meetingSession (console_log l t s) = meetingSession s"
  by (simp add: console_log_def)

lemma meetingSession_select_microphone [simp]:
  "meetingSession (select_microphone env s) = meetingSession s"
  by (simp add: select_microphone_def split: sum.splits list.splits option.splits)

lemma meetingSession_select_microphone_demo [simp]:
  "meetingSession (select_microphone_demo env s) = meetingSession s"
  by (simp add: select_microphone_demo_def split: sum.splits list.splits option.splits)

lemma meetingSession_select_speaker [simp]:
  "meetingSession (select_speaker env s) = meetingSession s"
  by (simp add: select_speaker_def split: sum.splits list.splits option.splits)






end
